theory Spec2Isabelle
  imports Complex_Main "HOL-Library.Sublist"
begin

section \<open>Python values, exceptions and the environment of the module\<close>

text \<open>
  The module \<^verbatim>\<open>respy/unit_base/auxil.pyx\<close> works on Python objects: strings, integers,
  floats, \<^verbatim>\<open>None\<close>, and the expression nodes of the symbolic engine (sympy). The
  code inspects an object through \<^verbatim>\<open>str(type(x))\<close>, \<^verbatim>\<open>x.args\<close> and named attributes
  (\<^verbatim>\<open>dimension\<close>, \<^verbatim>\<open>name\<close>), so an object of a class is modelled by exactly these three
  observations. A float is represented by the real number it denotes; the module does no
  floating-point arithmetic of its own. Strings are byte strings, as in Python 2, for which
  the module is written (a \<^verbatim>\<open>char*\<close> parameter whose tokens are compared with \<^verbatim>\<open>str\<close>
  literals).
\<close>

datatype pyobj =
    PyNone
  | PyInt int
  | PyFloat real
  | PyStr string
  | PyObj string "pyobj list" "(string \<times> pyobj) list"

text \<open>
  Exceptions are values. \<open>UnitError\<close>, \<open>TypeError\<close> and \<open>ValueError\<close> carry the message
  the module formats; the others are raised by the Python runtime.
\<close>

datatype error =
    UnitError string
  | TypeError string
  | ValueError string
  | IndexError
  | KeyError
  | AttributeError
  | ZeroDivisionError

text \<open>
  Everything the module imports and does not define itself is a field of the environment:
  the registry \<^verbatim>\<open>__UNITS__\<close>, the sentinels \<^verbatim>\<open>__NONE_UNITS__\<close>, the constants
  \<^verbatim>\<open>Zero\<close>, \<^verbatim>\<open>One\<close>, \<^verbatim>\<open>length\<close>, \<^verbatim>\<open>area\<close>, \<^verbatim>\<open>volume\<close> of \<^verbatim>\<open>respy.units\<close>, and the
  operations of the symbolic engine on objects: the test
  \<^verbatim>\<open>isinstance(x, tuple(sympy.core.all_classes))\<close>, \<^verbatim>\<open>==\<close>, \<^verbatim>\<open>str\<close>, \<^verbatim>\<open>float\<close> on an
  object of a class, the read of an attribute \<^verbatim>\<open>x.<name>\<close>, and the five arithmetic
  operators. The read of an attribute may run a property of the engine, so it may raise
  any exception, not \<^verbatim>\<open>AttributeError\<close> alone; so may \<^verbatim>\<open>float\<close> and the operators.
  \<open>One'\<close> and \<open>length'\<close> are primed because HOL has constants of these names.
\<close>

record env =
  UNITS :: "string \<rightharpoonup> pyobj"
  NONE_UNITS :: "pyobj list"
  Zero :: pyobj
  One' :: pyobj
  length' :: pyobj
  area :: pyobj
  volume :: pyobj
  is_sympy :: "pyobj \<Rightarrow> bool"
  py_eq :: "pyobj \<Rightarrow> pyobj \<Rightarrow> bool"
  py_str :: "pyobj \<Rightarrow> string"
  obj_float :: "pyobj \<Rightarrow> error + real"
  py_getattr :: "pyobj \<Rightarrow> string \<Rightarrow> error + pyobj"
  py_mul :: "pyobj \<Rightarrow> pyobj \<Rightarrow> error + pyobj"
  py_truediv :: "pyobj \<Rightarrow> pyobj \<Rightarrow> error + pyobj"
  py_add :: "pyobj \<Rightarrow> pyobj \<Rightarrow> error + pyobj"
  py_sub :: "pyobj \<Rightarrow> pyobj \<Rightarrow> error + pyobj"
  py_pow :: "pyobj \<Rightarrow> pyobj \<Rightarrow> error + pyobj"

subsection \<open>Builtins of the language\<close>

text \<open>\<^verbatim>\<open>str(type(x))\<close>: the class string of an object, and the fixed ones of the builtins.\<close>

fun type_str :: "pyobj \<Rightarrow> string" where
  "type_str PyNone = ''<type 'NoneType'>''"
| "type_str (PyInt n) = ''<type 'int'>''"
| "type_str (PyFloat r) = ''<type 'float'>''"
| "type_str (PyStr s) = ''<type 'str'>''"
| "type_str (PyObj c as ats) = c"

text \<open>\<^verbatim>\<open>needle in haystack\<close> on strings: \<open>needle\<close> occurs as a contiguous substring.\<close>

fun str_contains :: "string \<Rightarrow> string \<Rightarrow> bool" where
  "str_contains needle [] = (needle = [])"
| "str_contains needle (c # cs) = (if prefix needle (c # cs) then True else str_contains needle cs)"

text \<open>\<^verbatim>\<open>x.args\<close>: only an object of a class has it. \<open>stored_attr\<close> looks a name up among
  the attributes an object stores; what \<^verbatim>\<open>x.<name>\<close> does is up to the environment, which
  may use it.\<close>

fun py_args :: "pyobj \<Rightarrow> error + pyobj list" where
  "py_args (PyObj c as ats) = Inr as"
| "py_args x = Inl AttributeError"

fun stored_attr :: "pyobj \<Rightarrow> string \<Rightarrow> error + pyobj" where
  "stored_attr (PyObj c as ats) name =
     (case map_of ats name of Some v \<Rightarrow> Inr v | None \<Rightarrow> Inl AttributeError)"
| "stored_attr x name = Inl AttributeError"

text \<open>\<^verbatim>\<open>xs[i]\<close> on a list or tuple: a negative index counts from the end, an index out of
  range raises \<^verbatim>\<open>IndexError\<close>.\<close>

definition py_index :: "'a list \<Rightarrow> int \<Rightarrow> error + 'a" where
  "py_index xs i =
     (if 0 \<le> i \<and> i < int (length xs) then Inr (xs ! nat i)
      else if i < 0 \<and> - int (length xs) \<le> i then Inr (xs ! nat (int (length xs) + i))
      else Inl IndexError)"

text \<open>\<^verbatim>\<open>float(x)\<close>: the builtin numbers convert directly, an object of a class through
  the engine (\<^verbatim>\<open>__float__\<close>).\<close>

definition py_float :: "env \<Rightarrow> pyobj \<Rightarrow> error + real" where
  "py_float E x =
     (case x of PyInt n \<Rightarrow> Inr (real_of_int n) | PyFloat r \<Rightarrow> Inr r | _ \<Rightarrow> obj_float E x)"

text \<open>\<^verbatim>\<open>s.split()\<close> on a byte string: the maximal runs of non-whitespace bytes, where
  whitespace is space, tab, line feed, vertical tab, form feed and carriage return.\<close>

definition is_space :: "char \<Rightarrow> bool" where
  "is_space c = (c \<in> set [CHR '' '', CHR 0x09, CHR 0x0A, CHR 0x0B, CHR 0x0C, CHR 0x0D])"

fun split_from :: "string \<Rightarrow> string \<Rightarrow> string list" where
  "split_from cur [] = (if cur = [] then [] else [cur])"
| "split_from cur (c # cs) =
     (if is_space c then (if cur = [] then split_from [] cs else cur # split_from [] cs)
      else split_from (cur @ [c]) cs)"

definition split :: "string \<Rightarrow> string list" where
  "split s = split_from [] s"

text \<open>\<^verbatim>\<open>int(s)\<close> on a token without whitespace: an optional sign and one or more decimal
  digits; \<open>None\<close> stands for \<^verbatim>\<open>ValueError\<close>.\<close>

definition is_digit :: "char \<Rightarrow> bool" where
  "is_digit c = (c \<in> set ''0123456789'')"

definition digit_val :: "char \<Rightarrow> int" where
  "digit_val c = int (of_char c) - int (of_char (CHR ''0''))"

definition decimal :: "string \<Rightarrow> int option" where
  "decimal ds =
     (if ds \<noteq> [] \<and> list_all is_digit ds
      then Some (foldl (\<lambda>a c. 10 * a + digit_val c) 0 ds) else None)"

fun py_int :: "string \<Rightarrow> int option" where
  "py_int [] = None"
| "py_int (c # cs) =
     (if c = CHR ''-'' then map_option uminus (decimal cs)
      else if c = CHR ''+'' then decimal cs
      else decimal (c # cs))"

section \<open>\<^verbatim>\<open>get_unit_from_str\<close>\<close>

definition OPERATION_LIST :: "string list" where
  "OPERATION_LIST = [''*'', ''/'', ''+'', ''-'', ''**'']"

text \<open>
  The first loop (lines 64 to 78) sorts the tokens into \<^verbatim>\<open>unit_list\<close> and
  \<^verbatim>\<open>operand_list\<close> (which, despite its name, collects the operators); the state of the
  loop is the pair of the two lists.
\<close>

fun classify :: "env \<Rightarrow> string list \<Rightarrow> pyobj list \<times> string list \<Rightarrow> error + pyobj list \<times> string list" where
  "classify E [] st = Inr st"
| "classify E (item # rest) (unit_list, operand_list) =
     (if item \<in> set OPERATION_LIST then classify E rest (unit_list, operand_list @ [item])
      else case py_int item of
        Some n \<Rightarrow> classify E rest (unit_list @ [PyInt n], operand_list)
      | None \<Rightarrow>
         (case UNITS E item of
            Some u \<Rightarrow> classify E rest (unit_list @ [u], operand_list)
          | None \<Rightarrow> Inl (UnitError (item @ '' is not a valid unit.''))))"

text \<open>
  One pass of the second loop (lines 83 to 96). The body reads \<^verbatim>\<open>operand_list[i - 1]\<close>
  and applies the operator it names; the \<^verbatim>\<open>try\<close> around it turns an \<^verbatim>\<open>IndexError\<close>
  (from the read, or from the operator) into \<^verbatim>\<open>pass\<close>, which leaves \<^verbatim>\<open>unit_obj\<close> as it
  was, and lets every other exception through.
\<close>

definition apply_operator :: "env \<Rightarrow> string list \<Rightarrow> nat \<Rightarrow> pyobj \<Rightarrow> pyobj \<Rightarrow> error + pyobj" where
  "apply_operator E operand_list i unit_obj item =
     (case py_index operand_list (int i - 1) of
        Inl e \<Rightarrow> Inl e
      | Inr opr \<Rightarrow>
          if opr = ''*'' then py_mul E unit_obj item
          else if opr = ''/'' then py_truediv E unit_obj item
          else if opr = ''+'' then py_add E unit_obj item
          else if opr = ''-'' then py_sub E unit_obj item
          else if opr = ''**'' then py_pow E unit_obj item
          else Inr unit_obj)"

definition combine :: "env \<Rightarrow> pyobj list \<Rightarrow> string list \<Rightarrow> nat \<Rightarrow> pyobj \<Rightarrow> error + pyobj" where
  "combine E unit_list operand_list i unit_obj =
     (case apply_operator E operand_list i unit_obj (unit_list ! i) of
        Inl IndexError \<Rightarrow> Inr unit_obj
      | Inl e \<Rightarrow> Inl e
      | Inr v \<Rightarrow> Inr v)"

text \<open>The loop \<^verbatim>\<open>for i in range(1, len(unit_list))\<close>, run over the list of its indices.\<close>

fun reduce :: "env \<Rightarrow> pyobj list \<Rightarrow> string list \<Rightarrow> nat list \<Rightarrow> pyobj \<Rightarrow> error + pyobj" where
  "reduce E unit_list operand_list [] unit_obj = Inr unit_obj"
| "reduce E unit_list operand_list (i # is) unit_obj =
     (case combine E unit_list operand_list i unit_obj of
        Inl e \<Rightarrow> Inl e
      | Inr v \<Rightarrow> reduce E unit_list operand_list is v)"

definition get_unit_from_str :: "env \<Rightarrow> string \<Rightarrow> error + pyobj" where
  "get_unit_from_str E unit =
     (case classify E (split unit) ([], []) of
        Inl e \<Rightarrow> Inl e
      | Inr (unit_list, operand_list) \<Rightarrow>
          (case py_index unit_list 0 of
             Inl e \<Rightarrow> Inl e
           | Inr unit_obj \<Rightarrow> reduce E unit_list operand_list [1..<length unit_list] unit_obj))"

section \<open>\<^verbatim>\<open>decompose_expr\<close>\<close>

text \<open>The loop \<^verbatim>\<open>for i in range(1, len(unit)): unit_obj *= unit[i]\<close> (lines 135, 136).\<close>

fun multiply :: "env \<Rightarrow> pyobj list \<Rightarrow> nat list \<Rightarrow> pyobj \<Rightarrow> error + pyobj" where
  "multiply E unit [] unit_obj = Inr unit_obj"
| "multiply E unit (i # is) unit_obj =
     (case py_mul E unit_obj (unit ! i) of
        Inl e \<Rightarrow> Inl e
      | Inr v \<Rightarrow> multiply E unit is v)"

text \<open>The body of the \<^verbatim>\<open>try\<close> (lines 127 to 136), with \<^verbatim>\<open>value = expr.args[0]\<close> and
  \<^verbatim>\<open>expr.args\<close> already read.\<close>

definition split_coefficient :: "env \<Rightarrow> pyobj \<Rightarrow> pyobj list \<Rightarrow> error + pyobj \<times> pyobj" where
  "split_coefficient E value args =
     (case py_float E value of
        Inl e \<Rightarrow> Inl e
      | Inr f \<Rightarrow>
          (let unit = drop 1 args in
           if length unit = 1 then
             (case py_index unit 0 of
                Inl e \<Rightarrow> Inl e
              | Inr unit_obj \<Rightarrow> Inr (PyFloat f, unit_obj))
           else
             (case py_index unit 0 of
                Inl e \<Rightarrow> Inl e
              | Inr unit_obj \<Rightarrow>
                  (case multiply E unit [1..<length unit] unit_obj of
                     Inl e \<Rightarrow> Inl e
                   | Inr u \<Rightarrow> Inr (PyFloat f, u)))))"

text \<open>The result is the pair \<^verbatim>\<open>(value, unit_obj)\<close>. A \<^verbatim>\<open>TypeError\<close> raised anywhere in the
  \<^verbatim>\<open>try\<close> selects the \<^verbatim>\<open>except\<close> branch; any other exception leaves the function.\<close>

definition decompose_expr :: "env \<Rightarrow> pyobj \<Rightarrow> error + pyobj \<times> pyobj" where
  "decompose_expr E expr =
     (if str_contains ''Pow'' (type_str expr) then Inr (PyInt 1, expr)
      else if str_contains ''Mul'' (type_str expr) then
        (case py_args expr of
           Inl e \<Rightarrow> Inl e
         | Inr args \<Rightarrow>
             (case py_index args 0 of
                Inl e \<Rightarrow> Inl e
              | Inr value \<Rightarrow>
                  (case split_coefficient E value args of
                     Inl (TypeError msg) \<Rightarrow> Inr (PyInt 1, expr)
                   | Inl e \<Rightarrow> Inl e
                   | Inr r \<Rightarrow> Inr r)))
      else Inl (TypeError (''Data type '' @ py_str E expr @ '' not understood.'')))"

section \<open>\<^verbatim>\<open>get_unit\<close> and \<^verbatim>\<open>get_dimension\<close>\<close>

text \<open>
  \<^verbatim>\<open>get_unit_from_str\<close> takes a \<^verbatim>\<open>char*\<close>: the string object is passed as a C string,
  which ends at its first zero byte.
\<close>

definition c_string :: "string \<Rightarrow> string" where
  "c_string s = takeWhile (\<lambda>c. c \<noteq> CHR 0x00) s"

definition get_unit :: "env \<Rightarrow> pyobj \<Rightarrow> error + pyobj" where
  "get_unit E unit =
     (if is_sympy E unit then Inr unit
      else case unit of
        PyStr s \<Rightarrow> get_unit_from_str E (c_string s)
      | _ \<Rightarrow>
          if list_ex (py_eq E unit) (NONE_UNITS E) then Inr (Zero E)
          else Inl (UnitError (py_str E unit @ '' is not a valid unit.'')))"

text \<open>
  \<^verbatim>\<open>unit_base, exp = unit.args\<close> (line 166) stands outside the \<^verbatim>\<open>try\<close>: it raises
  \<^verbatim>\<open>ValueError\<close> unless \<^verbatim>\<open>args\<close> has exactly two entries. The two \<^verbatim>\<open>try\<close> blocks catch
  \<^verbatim>\<open>AttributeError\<close> only: any other exception of the reads \<^verbatim>\<open>unit.dimension\<close>,
  \<^verbatim>\<open>dimension.name\<close> and \<^verbatim>\<open>unit_base.dimension\<close> leaves the function.
\<close>

definition get_dimension :: "env \<Rightarrow> pyobj \<Rightarrow> error + pyobj" where
  "get_dimension E unit0 =
     (case get_unit E unit0 of
        Inl e \<Rightarrow> Inl e
      | Inr unit \<Rightarrow>
          if str_contains ''Quantity'' (type_str unit) then
            (case py_getattr E unit ''dimension'' of
               Inl AttributeError \<Rightarrow> Inr (Zero E)
             | Inl e \<Rightarrow> Inl e
             | Inr dimension \<Rightarrow>
                 (case py_getattr E dimension ''name'' of
                    Inl AttributeError \<Rightarrow> Inr (Zero E)
                  | Inl e \<Rightarrow> Inl e
                  | Inr name \<Rightarrow> if py_eq E name (One' E) then Inr (Zero E) else Inr dimension))
          else if str_contains ''Pow'' (type_str unit) then
            (case py_args unit of
               Inl e \<Rightarrow> Inl e
             | Inr args \<Rightarrow>
                 (case args of
                    [unit_base, exponent] \<Rightarrow>
                      (case py_getattr E unit_base ''dimension'' of
                         Inl AttributeError \<Rightarrow> Inr (Zero E)
                       | Inl e \<Rightarrow> Inl e
                       | Inr dimension_base \<Rightarrow>
                           if py_eq E dimension_base (length' E) then
                             (if py_eq E exponent (PyInt 2) then Inr (area E)
                              else if py_eq E exponent (PyInt 3) then Inr (volume E)
                              else Inr (Zero E))
                           else Inr (Zero E))
                  | _ \<Rightarrow> Inl (ValueError ''wrong number of values to unpack'')))
          else Inr (Zero E))"

section \<open>\<^verbatim>\<open>decompose_expr_array\<close>\<close>

text \<open>
  An array is its shape and its elements in row-major order (what \<^verbatim>\<open>flatten()\<close> returns);
  a well-formed one has as many elements as the product of its shape. \<^verbatim>\<open>a[0]\<close> is an
  element of a one-dimensional array, the first sub-array of an array of more dimensions,
  and an \<^verbatim>\<open>IndexError\<close> for an array without dimensions or with an empty first axis.
\<close>

datatype 'a ndarray = NDArray (shape: "nat list") (flatten: "'a list")

datatype 'a indexed = Element 'a | Subarray "'a ndarray"

definition index0 :: "'a ndarray \<Rightarrow> error + 'a indexed" where
  "index0 a =
     (case shape a of
        [] \<Rightarrow> Inl IndexError
      | n # rest \<Rightarrow>
          if n = 0 then Inl IndexError
          else if rest = [] then
            (case py_index (flatten a) 0 of Inl e \<Rightarrow> Inl e | Inr x \<Rightarrow> Inr (Element x))
          else Inr (Subarray (NDArray rest (take (prod_list rest) (flatten a)))))"

text \<open>\<^verbatim>\<open>unit[0] == unit\<close>: the comparison of every element with \<^verbatim>\<open>unit[0]\<close>, or with the
  element at the same place of the first sub-array (broadcasting); the result is given
  flattened. \<^verbatim>\<open>np.any\<close> holds when one entry does.\<close>

definition eq_first :: "env \<Rightarrow> pyobj indexed \<Rightarrow> pyobj ndarray \<Rightarrow> bool list" where
  "eq_first E first a =
     (case first of
        Element x \<Rightarrow> map (py_eq E x) (flatten a)
      | Subarray sub \<Rightarrow>
          map (\<lambda>(i, y). py_eq E (flatten sub ! (i mod length (flatten sub))) y)
            (enumerate 0 (flatten a)))"

definition np_any :: "bool list \<Rightarrow> bool" where
  "np_any bs = list_ex (\<lambda>b. b) bs"

text \<open>A loop over the elements that stops at the first exception.\<close>

fun for_each :: "('a \<Rightarrow> error + 'b) \<Rightarrow> 'a list \<Rightarrow> error + 'b list" where
  "for_each f [] = Inr []"
| "for_each f (x # xs) =
     (case f x of
        Inl e \<Rightarrow> Inl e
      | Inr y \<Rightarrow> (case for_each f xs of Inl e \<Rightarrow> Inl e | Inr ys \<Rightarrow> Inr (y # ys)))"

text \<open>\<^verbatim>\<open>astype(np.double)\<close> converts every element with \<^verbatim>\<open>float\<close>; \<^verbatim>\<open>reshape(shape)\<close>
  restores the shape the array was flattened from.\<close>

definition decompose_expr_array :: "env \<Rightarrow> pyobj ndarray \<Rightarrow> error + real ndarray \<times> pyobj indexed" where
  "decompose_expr_array E value0 =
     (case for_each (decompose_expr E) (flatten value0) of
        Inl e \<Rightarrow> Inl e
      | Inr pairs \<Rightarrow>
          (let value = NDArray (shape value0) (map fst pairs);
               unit = NDArray (shape value0) (map snd pairs)
           in case index0 unit of
                Inl e \<Rightarrow> Inl e
              | Inr first \<Rightarrow>
                  if np_any (eq_first E first unit) then
                    (case for_each (py_float E) (flatten value) of
                       Inl e \<Rightarrow> Inl e
                     | Inr doubles \<Rightarrow> Inr (NDArray (shape value0) doubles, first))
                  else Inl (ValueError
                    ''If the input is an array, the units for all values must be equal.'')))"

section \<open>The two folds, as the specification words them\<close>

text \<open>
  The specification describes the reduction of \<^verbatim>\<open>get_unit_from_str\<close> as a fold: the
  accumulator starts as the first operand, and each further operand is combined with it
  by the operator in front of it, left to right, with no precedence. \<open>operate\<close> applies
  one operator token and \<open>left_to_right\<close> is that fold over the pairs of an operator and
  its operand; an \<^verbatim>\<open>IndexError\<close> of an operator is swallowed by the \<^verbatim>\<open>try\<close> of the loop,
  so the fold goes on with the accumulator unchanged.
\<close>

definition operate :: "env \<Rightarrow> string \<Rightarrow> pyobj \<Rightarrow> pyobj \<Rightarrow> error + pyobj" where
  "operate E opr unit_obj item =
     (if opr = ''*'' then py_mul E unit_obj item
      else if opr = ''/'' then py_truediv E unit_obj item
      else if opr = ''+'' then py_add E unit_obj item
      else if opr = ''-'' then py_sub E unit_obj item
      else if opr = ''**'' then py_pow E unit_obj item
      else Inr unit_obj)"

fun left_to_right :: "env \<Rightarrow> pyobj \<Rightarrow> (string \<times> pyobj) list \<Rightarrow> error + pyobj" where
  "left_to_right E acc [] = Inr acc"
| "left_to_right E acc ((opr, item) # rest) =
     (case operate E opr acc item of
        Inl IndexError \<Rightarrow> left_to_right E acc rest
      | Inl e \<Rightarrow> Inl e
      | Inr v \<Rightarrow> left_to_right E v rest)"

text \<open>The residual unit of a product, in the specification's words: the remaining
  operands folded left to right by multiplication.\<close>

fun mul_fold :: "env \<Rightarrow> pyobj \<Rightarrow> pyobj list \<Rightarrow> error + pyobj" where
  "mul_fold E acc [] = Inr acc"
| "mul_fold E acc (x # xs) =
     (case py_mul E acc x of Inl e \<Rightarrow> Inl e | Inr v \<Rightarrow> mul_fold E v xs)"

section \<open>An environment to run the functions in\<close>

text \<open>
  The theorems below hold for every environment. To run the functions on the examples of
  the specification, this section gives one: the units \<open>meter\<close> and \<open>second\<close> registered
  under \<^verbatim>\<open>m\<close> and \<^verbatim>\<open>s\<close>, and an engine that builds the node of an operator without
  simplifying it. Two Python integers are combined by Python's integer arithmetic (true
  division, as the module imports it from \<^verbatim>\<open>__future__\<close>); any other pair of operands goes
  to the engine, which turns a number into its node first. Equality is equality of the
  nodes, and \<^verbatim>\<open>str\<close> prints a string, \<^verbatim>\<open>None\<close> and the name of a named object (the class
  string of anything else). An attribute is read from what the object stores, with one
  exception: \<^verbatim>\<open>dimension\<close> of a quantity is a property of the engine that looks the
  quantity up in a table, and raises \<^verbatim>\<open>KeyError\<close> for a quantity that has no dimension.
\<close>

definition Quantity_class :: string where
  "Quantity_class = ''<class 'sympy.physics.units.quantities.Quantity'>''"

definition Dimension_class :: string where
  "Dimension_class = ''<class 'sympy.physics.units.dimensions.Dimension'>''"

definition Pow_class :: string where
  "Pow_class = ''<class 'sympy.core.power.Pow'>''"

definition Mul_class :: string where
  "Mul_class = ''<class 'sympy.core.mul.Mul'>''"

definition Add_class :: string where
  "Add_class = ''<class 'sympy.core.add.Add'>''"

definition Integer_class :: string where
  "Integer_class = ''<class 'sympy.core.numbers.Integer'>''"

definition Float_class :: string where
  "Float_class = ''<class 'sympy.core.numbers.Float'>''"

definition Dimension :: "string \<Rightarrow> pyobj" where
  "Dimension name = PyObj Dimension_class [] [(''name'', PyStr name)]"

definition Quantity :: "string \<Rightarrow> pyobj \<Rightarrow> pyobj" where
  "Quantity name dimension =
     PyObj Quantity_class [] [(''name'', PyStr name), (''dimension'', dimension)]"

definition Integer :: "int \<Rightarrow> pyobj" where
  "Integer n = PyObj Integer_class [] [(''p'', PyInt n)]"

definition Float :: "real \<Rightarrow> pyobj" where
  "Float r = PyObj Float_class [] [(''num'', PyFloat r)]"

definition Pow :: "pyobj \<Rightarrow> pyobj \<Rightarrow> pyobj" where
  "Pow b e = PyObj Pow_class [b, e] []"

definition Mul :: "pyobj list \<Rightarrow> pyobj" where
  "Mul args = PyObj Mul_class args []"

definition Add :: "pyobj list \<Rightarrow> pyobj" where
  "Add args = PyObj Add_class args []"

definition meter :: pyobj where
  "meter = Quantity ''meter'' (Dimension ''length'')"

definition second :: pyobj where
  "second = Quantity ''second'' (Dimension ''time'')"

definition sympify :: "pyobj \<Rightarrow> pyobj" where
  "sympify x = (case x of PyInt n \<Rightarrow> Integer n | PyFloat r \<Rightarrow> Float r | _ \<Rightarrow> x)"

definition sample_float :: "pyobj \<Rightarrow> error + real" where
  "sample_float x =
     (case x of
        PyObj c as [(k, PyInt n)] \<Rightarrow>
          if c = Integer_class then Inr (real_of_int n)
          else Inl (TypeError ''can't convert expression to float'')
      | PyObj c as [(k, PyFloat r)] \<Rightarrow>
          if c = Float_class then Inr r
          else Inl (TypeError ''can't convert expression to float'')
      | _ \<Rightarrow> Inl (TypeError ''can't convert expression to float''))"

definition sample_mul :: "pyobj \<Rightarrow> pyobj \<Rightarrow> error + pyobj" where
  "sample_mul a b =
     (case (a, b) of
        (PyInt m, PyInt n) \<Rightarrow> Inr (PyInt (m * n))
      | _ \<Rightarrow> Inr (Mul [sympify a, sympify b]))"

definition sample_truediv :: "pyobj \<Rightarrow> pyobj \<Rightarrow> error + pyobj" where
  "sample_truediv a b =
     (case (a, b) of
        (PyInt m, PyInt n) \<Rightarrow>
          if n = 0 then Inl ZeroDivisionError else Inr (PyFloat (real_of_int m / real_of_int n))
      | _ \<Rightarrow> Inr (Mul [sympify a, Pow (sympify b) (Integer (- 1))]))"

definition sample_add :: "pyobj \<Rightarrow> pyobj \<Rightarrow> error + pyobj" where
  "sample_add a b =
     (case (a, b) of
        (PyInt m, PyInt n) \<Rightarrow> Inr (PyInt (m + n))
      | _ \<Rightarrow> Inr (Add [sympify a, sympify b]))"

definition sample_sub :: "pyobj \<Rightarrow> pyobj \<Rightarrow> error + pyobj" where
  "sample_sub a b =
     (case (a, b) of
        (PyInt m, PyInt n) \<Rightarrow> Inr (PyInt (m - n))
      | _ \<Rightarrow> Inr (Add [sympify a, Mul [Integer (- 1), sympify b]]))"

definition sample_pow :: "pyobj \<Rightarrow> pyobj \<Rightarrow> error + pyobj" where
  "sample_pow a b =
     (case (a, b) of
        (PyInt m, PyInt n) \<Rightarrow>
          if 0 \<le> n then Inr (PyInt (m ^ nat n))
          else if m = 0 then Inl ZeroDivisionError
          else Inr (PyFloat (1 / real_of_int (m ^ nat (- n))))
      | _ \<Rightarrow> Inr (Pow (sympify a) (sympify b)))"

definition sample_getattr :: "pyobj \<Rightarrow> string \<Rightarrow> error + pyobj" where
  "sample_getattr x name =
     (if name = ''dimension'' \<and> type_str x = Quantity_class
         \<and> stored_attr x name = Inl AttributeError
      then Inl KeyError
      else stored_attr x name)"

definition sample_is_sympy :: "pyobj \<Rightarrow> bool" where
  "sample_is_sympy x = (case x of PyObj c as ats \<Rightarrow> prefix ''<class 'sympy.'' c | _ \<Rightarrow> False)"

definition sample_str :: "pyobj \<Rightarrow> string" where
  "sample_str x =
     (case x of
        PyStr s \<Rightarrow> s
      | PyNone \<Rightarrow> ''None''
      | PyObj c as ats \<Rightarrow> (case map_of ats ''name'' of Some (PyStr n) \<Rightarrow> n | _ \<Rightarrow> c)
      | _ \<Rightarrow> type_str x)"

definition sample_env :: env where
  "sample_env =
     \<lparr> UNITS = map_of [(''m'', meter), (''s'', second)],
       NONE_UNITS = [PyNone, PyInt 1],
       Zero = Integer 0,
       One' = Integer 1,
       length' = Dimension ''length'',
       area = Dimension ''area'',
       volume = Dimension ''volume'',
       is_sympy = sample_is_sympy,
       py_eq = (\<lambda>a b. sympify a = sympify b),
       py_str = sample_str,
       obj_float = sample_float,
       py_getattr = sample_getattr,
       py_mul = sample_mul,
       py_truediv = sample_truediv,
       py_add = sample_add,
       py_sub = sample_sub,
       py_pow = sample_pow \<rparr>"

section \<open>Facts about the builtins and the sample environment\<close>

lemmas token_defs = split_def is_space_def OPERATION_LIST_def decimal_def is_digit_def digit_val_def

lemmas class_defs = Quantity_class_def Dimension_class_def Pow_class_def Mul_class_def Add_class_def
  Integer_class_def Float_class_def

lemmas sample_defs =
  sample_env_def sample_mul_def sample_truediv_def sample_add_def sample_sub_def sample_pow_def
  sample_float_def sample_getattr_def sample_is_sympy_def sample_str_def sympify_def
  meter_def second_def Quantity_def Dimension_def Integer_def Float_def Pow_def Mul_def Add_def

lemma py_index_Nil: "py_index [] i = Inl IndexError"
  by (simp add: py_index_def)

lemma py_index_0: "py_index xs 0 = (case xs of [] \<Rightarrow> Inl IndexError | x # ys \<Rightarrow> Inr x)"
  by (cases xs) (simp_all add: py_index_def)

lemma py_index_pred:
  "0 < i \<Longrightarrow>
   py_index xs (int i - 1) = (if i \<le> length xs then Inr (xs ! (i - 1)) else Inl IndexError)"
  by (auto simp: py_index_def nat_diff_distrib')

lemma py_int_operator: "item \<in> set OPERATION_LIST \<Longrightarrow> py_int item = None"
  by (auto simp: OPERATION_LIST_def decimal_def is_digit_def)

lemma split_from_spaces: "list_all is_space s \<Longrightarrow> split_from [] s = []"
  by (induction s) simp_all

lemma sample_types:
  "str_contains ''Pow'' (type_str (Pow b e))"
  "\<not> str_contains ''Quantity'' (type_str (Pow b e))"
  "\<not> str_contains ''Pow'' (type_str (Mul as))"
  "str_contains ''Mul'' (type_str (Mul as))"
  "\<not> str_contains ''Quantity'' (type_str (Mul as))"
  "str_contains ''Quantity'' (type_str (Quantity n d))"
  "\<not> str_contains ''Pow'' (type_str (Integer k))"
  "\<not> str_contains ''Quantity'' (type_str (Integer k))"
  "\<not> str_contains ''Pow'' (type_str (Quantity n d))"
  by (simp_all add: Pow_def Mul_def Quantity_def Integer_def class_defs)

lemma sample_is_sympy:
  "is_sympy sample_env (Pow b e)"
  "is_sympy sample_env (Mul as)"
  "is_sympy sample_env (Quantity n d)"
  "is_sympy sample_env (Integer k)"
  by (simp_all add: sample_env_def sample_is_sympy_def Pow_def Mul_def Quantity_def Integer_def
      class_defs)

lemma sample_get_unit:
  "get_unit sample_env (Pow b e) = Inr (Pow b e)"
  "get_unit sample_env (Quantity n d) = Inr (Quantity n d)"
  by (simp_all add: get_unit_def sample_is_sympy)

lemma sample_attributes:
  "py_getattr sample_env (Quantity n d) ''dimension'' = Inr d"
  "py_getattr sample_env (Integer k) ''dimension'' = Inl AttributeError"
  "py_getattr sample_env (Dimension n) ''name'' = Inr (PyStr n)"
  "py_args (Pow b e) = Inr [b, e]"
  "py_args (Mul as) = Inr as"
  by (simp_all add: sample_env_def sample_getattr_def Quantity_def Integer_def Dimension_def
      Pow_def Mul_def class_defs)

lemma sample_float_Float: "py_float sample_env (Float r) = Inr r"
  by (simp add: py_float_def Float_def sample_env_def sample_float_def)

lemma sample_float_meter:
  "py_float sample_env meter = Inl (TypeError ''can't convert expression to float'')"
  by (simp add: py_float_def sample_env_def sample_float_def meter_def Quantity_def)

section \<open>The unit resolver\<close>

subsection \<open>Tokens without an operand, and a single integer\<close>

lemma classify_operators:
  "set toks \<subseteq> set OPERATION_LIST \<Longrightarrow> classify E toks (ul, ol) = Inr (ul, ol @ toks)"
  by (induction toks arbitrary: ol) simp_all

text \<open>
  Claim C9: a string with no operand token (the empty string, a string of whitespace only,
  or a string whose tokens are all operators) makes \<^verbatim>\<open>get_unit_from_str\<close> fail with the
  \<^verbatim>\<open>IndexError\<close> of \<^verbatim>\<open>unit_list[0]\<close>, not with a \<^verbatim>\<open>UnitError\<close>.
\<close>

theorem get_unit_from_str_no_operand:
  assumes "list_all is_space unit \<or> set (split unit) \<subseteq> set OPERATION_LIST"
  shows "get_unit_from_str E unit = Inl IndexError"
proof -
  have "set (split unit) \<subseteq> set OPERATION_LIST"
    using assms by (auto simp: split_def split_from_spaces)
  then have "classify E (split unit) ([], []) = Inr ([], split unit)"
    using classify_operators [of "split unit" E "[]" "[]"] by simp
  then show ?thesis
    by (simp add: get_unit_from_str_def py_index_Nil)
qed

theorem get_unit_from_str_no_operand_witness:
  "get_unit_from_str sample_env [] = Inl IndexError
   \<and> get_unit_from_str sample_env ''   '' = Inl IndexError
   \<and> get_unit_from_str sample_env ''* / **'' = Inl IndexError"
  using get_unit_from_str_no_operand [of "[]" sample_env]
    get_unit_from_str_no_operand [of "''   ''" sample_env]
    get_unit_from_str_no_operand [of "''* / **''" sample_env]
  by (simp add: token_defs)

text \<open>
  Claim C10: a string that consists of a single integer literal resolves to the plain
  integer of that token (for \<^verbatim>\<open>"5"\<close> the \<^verbatim>\<open>int\<close> 5), not to an expression of the engine.
\<close>

theorem get_unit_from_str_single_integer:
  assumes "split unit = [item]" and "py_int item = Some n"
  shows "get_unit_from_str E unit = Inr (PyInt n)"
proof -
  have "item \<notin> set OPERATION_LIST"
    using assms(2) py_int_operator by fastforce
  then have "classify E (split unit) ([], []) = Inr ([PyInt n], [])"
    using assms by simp
  then show ?thesis
    by (simp add: get_unit_from_str_def py_index_0)
qed

theorem get_unit_from_str_single_integer_witness:
  "split ''5'' = [''5''] \<and> py_int ''5'' = Some 5
   \<and> get_unit_from_str sample_env ''5'' = Inr (PyInt 5)"
  using get_unit_from_str_single_integer [of "''5''" "''5''" 5 sample_env]
  by (simp add: token_defs)

subsection \<open>The second loop is the left-to-right fold\<close>

lemma combine_past_end:
  assumes "length operand_list < i"
  shows "combine E unit_list operand_list i unit_obj = Inr unit_obj"
proof -
  have "py_index operand_list (int i - 1) = Inl IndexError"
    using assms by (simp add: py_index_pred)
  then show ?thesis
    by (simp add: combine_def apply_operator_def)
qed

lemma combine_in_range:
  assumes "0 < i" and "i \<le> length operand_list"
  shows "combine E unit_list operand_list i unit_obj =
     (case operate E (operand_list ! (i - 1)) unit_obj (unit_list ! i) of
        Inl IndexError \<Rightarrow> Inr unit_obj
      | Inl e \<Rightarrow> Inl e
      | Inr v \<Rightarrow> Inr v)"
  using assms by (simp add: combine_def apply_operator_def py_index_pred operate_def)

lemma reduce_past_end:
  "list_all (\<lambda>i. length ol < i) is \<Longrightarrow> reduce E ul ol is acc = Inr acc"
  by (induction "is") (simp_all add: combine_past_end)

lemma left_to_right_no_IndexError: "left_to_right E acc pairs \<noteq> Inl IndexError"
  by (induction E acc pairs rule: left_to_right.induct)
    (simp_all split: sum.splits error.splits)

lemma reduce_left_to_right:
  "0 < k \<Longrightarrow>
   reduce E ul ol [k..<length ul] acc = left_to_right E acc (zip (drop (k - 1) ol) (drop k ul))"
proof (induction "length ul - k" arbitrary: k acc)
  case 0
  then show ?case by simp
next
  case (Suc d)
  then have lt: "k < length ul" by simp
  have IH: "reduce E ul ol [Suc k..<length ul] v =
      left_to_right E v (zip (drop k ol) (drop (Suc k) ul))" for v
    using Suc.hyps(1) [of "Suc k" v] Suc.hyps(2) lt by simp
  show ?case
  proof (cases "k \<le> length ol")
    case True
    then have d1: "drop (k - 1) ol = ol ! (k - 1) # drop k ol"
      using Suc.prems Cons_nth_drop_Suc [of "k - 1" ol] by simp
    have d2: "drop k ul = ul ! k # drop (Suc k) ul"
      using lt by (simp add: Cons_nth_drop_Suc)
    have z: "zip (drop (k - 1) ol) (drop k ul) =
        (ol ! (k - 1), ul ! k) # zip (drop k ol) (drop (Suc k) ul)"
      by (simp only: d1 d2 zip_Cons_Cons)
    have c: "combine E ul ol k acc =
        (case operate E (ol ! (k - 1)) acc (ul ! k) of
           Inl IndexError \<Rightarrow> Inr acc
         | Inl e \<Rightarrow> Inl e
         | Inr v \<Rightarrow> Inr v)"
      using Suc.prems True by (rule combine_in_range)
    have u: "[k..<length ul] = k # [Suc k..<length ul]"
      using lt by (rule upt_conv_Cons)
    show ?thesis
      unfolding u z by (simp add: c IH split: sum.splits error.splits)
  next
    case False
    then have "reduce E ul ol [k..<length ul] acc = Inr acc"
      by (intro reduce_past_end) (simp add: list_all_iff)
    with False show ?thesis by simp
  qed
qed

text \<open>
  Whatever the numbers of operands and operators, \<^verbatim>\<open>get_unit_from_str\<close> is the fold over
  the operators paired with the operands after the first: \<open>zip\<close> stops at the shorter
  list, so operands without an operator and operators without an operand drop out.
\<close>

lemma get_unit_from_str_fold:
  assumes "classify E (split unit) ([], []) = Inr (unit_list, operand_list)"
  shows "get_unit_from_str E unit =
     (case unit_list of
        [] \<Rightarrow> Inl IndexError
      | first # others \<Rightarrow> left_to_right E first (zip operand_list others))"
proof (cases unit_list)
  case Nil
  with assms show ?thesis by (simp add: get_unit_from_str_def py_index_Nil)
next
  case (Cons first others)
  with assms reduce_left_to_right [of 1 E unit_list operand_list first] show ?thesis
    by (simp add: get_unit_from_str_def py_index_0)
qed

subsection \<open>No precedence: \<^verbatim>\<open>m / s ** 2\<close>\<close>

text \<open>
  Claim C2, as amended: with \<^verbatim>\<open>m\<close> and \<^verbatim>\<open>s\<close> registered, \<^verbatim>\<open>"m / s ** 2"\<close> resolves to
  \<^verbatim>\<open>(m / s) ** 2\<close>. The accumulator starts as the first operand, and the operator at
  index \<open>i - 1\<close> is applied to the accumulator and the operand at index \<open>i\<close>, left to right
  with no precedence: the division is done first and its quotient is squared.
\<close>

theorem get_unit_from_str_m_per_s_squared:
  assumes "UNITS E ''m'' = Some m" and "UNITS E ''s'' = Some s"
      and "py_truediv E m s = Inr q"
      and "py_pow E q (PyInt 2) = Inr r"
  shows "get_unit_from_str E ''m / s ** 2'' = Inr r"
proof -
  have toks: "split ''m / s ** 2'' = [''m'', ''/'', ''s'', ''**'', ''2'']"
    by (simp add: split_def is_space_def)
  have cl: "classify E [''m'', ''/'', ''s'', ''**'', ''2''] ([], []) =
      Inr ([m, s, PyInt 2], [''/'', ''**''])"
    using assms(1,2) by (simp add: OPERATION_LIST_def decimal_def is_digit_def digit_val_def)
  have "get_unit_from_str E ''m / s ** 2'' =
      left_to_right E m [(''/'', s), (''**'', PyInt 2)]"
    using get_unit_from_str_fold [of E "''m / s ** 2''" "[m, s, PyInt 2]" "[''/'', ''**'']"]
    unfolding toks using cl by simp
  then show ?thesis
    using assms(3,4) by (simp add: operate_def)
qed

theorem get_unit_from_str_m_per_s_squared_witness:
  "get_unit_from_str sample_env ''m / s ** 2'' =
     Inr (Pow (Mul [meter, Pow second (Integer (- 1))]) (Integer 2))"
  using get_unit_from_str_m_per_s_squared [of sample_env meter second
      "Mul [meter, Pow second (Integer (- 1))]"
      "Pow (Mul [meter, Pow second (Integer (- 1))]) (Integer 2)"]
  by (simp add: sample_defs)

text \<open>
  The claim as stated fails: in the sample environment the string resolves to the square
  of the quotient, which is not equal to \<^verbatim>\<open>meter * second ** -2\<close>.
\<close>

theorem get_unit_from_str_no_precedence:
  "get_unit_from_str sample_env ''m / s ** 2'' =
     Inr (Pow (Mul [meter, Pow second (Integer (- 1))]) (Integer 2))
   \<and> py_pow sample_env second (PyInt (- 2)) = Inr (Pow second (Integer (- 2)))
   \<and> py_mul sample_env meter (Pow second (Integer (- 2))) =
       Inr (Mul [meter, Pow second (Integer (- 2))])
   \<and> \<not> py_eq sample_env (Pow (Mul [meter, Pow second (Integer (- 1))]) (Integer 2))
         (Mul [meter, Pow second (Integer (- 2))])"
  by (simp add: get_unit_from_str_def token_defs py_index_def combine_def apply_operator_def
      upt_rec sample_defs Pow_class_def Mul_class_def)

subsection \<open>More operands than operators\<close>

lemma zip_take_operands: "zip xs (take (length xs) ys) = zip xs ys"
proof (induction xs arbitrary: ys)
  case Nil
  show ?case by simp
next
  case (Cons x xs)
  then show ?case by (cases ys) simp_all
qed

text \<open>
  Claim C8: when the tokens of the string are classified and there are more operands than
  operators, the mismatch is not raised as an error. Every step at a position past the
  end of the operator list returns the accumulator unchanged, the reduction goes on, the
  call is the left-to-right fold over the operators and as many operands after the first
  (the operands beyond them are dropped), and it never fails with an \<^verbatim>\<open>IndexError\<close>.
\<close>

theorem get_unit_from_str_skips_missing_operators:
  assumes "classify E (split unit) ([], []) = Inr (unit_list, operand_list)"
      and "length operand_list < length unit_list"
  shows "(\<forall>i unit_obj. length operand_list < i \<longrightarrow>
            combine E unit_list operand_list i unit_obj = Inr unit_obj)
       \<and> get_unit_from_str E unit =
            left_to_right E (hd unit_list)
              (zip operand_list (take (length operand_list) (tl unit_list)))
       \<and> get_unit_from_str E unit \<noteq> Inl IndexError"
proof -
  obtain first others where ul: "unit_list = first # others"
    using assms(2) by (cases unit_list) auto
  have run: "get_unit_from_str E unit = left_to_right E first (zip operand_list others)"
    using get_unit_from_str_fold [OF assms(1)] ul by simp
  have "zip operand_list (take (length operand_list) others) = zip operand_list others"
    by (rule zip_take_operands)
  with run ul show ?thesis
    by (simp add: combine_past_end left_to_right_no_IndexError)
qed

theorem get_unit_from_str_skips_missing_operators_witness:
  "classify sample_env (split ''m * s s'') ([], []) = Inr ([meter, second, second], [''*''])
   \<and> combine sample_env [meter, second, second] [''*''] 2 (Mul [meter, second]) =
       Inr (Mul [meter, second])
   \<and> get_unit_from_str sample_env ''m * s s'' = Inr (Mul [meter, second])"
proof -
  have c: "classify sample_env (split ''m * s s'') ([], []) =
      Inr ([meter, second, second], [''*''])"
    by (simp add: token_defs sample_env_def)
  have r: "left_to_right sample_env meter [(''*'', second)] = Inr (Mul [meter, second])"
    by (simp add: operate_def sample_defs)
  show ?thesis
    using c get_unit_from_str_skips_missing_operators [OF c] r by simp
qed

text \<open>
  What an operator raises where it is applied is a matter of the operator, not of the
  mismatch: \<^verbatim>\<open>"5 / 0"\<close> and \<^verbatim>\<open>"5 / 0 m"\<close> raise the same \<^verbatim>\<open>ZeroDivisionError\<close>, and
  \<^verbatim>\<open>"5 / 2 m"\<close> returns the quotient.
\<close>

lemma get_unit_from_str_operator_raises:
  "get_unit_from_str sample_env ''5 / 0'' = Inl ZeroDivisionError
   \<and> get_unit_from_str sample_env ''5 / 0 m'' = Inl ZeroDivisionError
   \<and> get_unit_from_str sample_env ''5 / 2 m'' = Inr (PyFloat (5 / 2))"
  by (simp add: get_unit_from_str_def token_defs py_index_def combine_def apply_operator_def
      upt_rec sample_env_def sample_truediv_def)

section \<open>The decomposer\<close>

subsection \<open>Powers\<close>

text \<open>
  Claim C4: for an expression whose type is a power (\<^verbatim>\<open>'Pow' in str(type(expr))\<close>),
  \<^verbatim>\<open>decompose_expr\<close> returns the magnitude 1 and the whole expression as the unit; base and
  exponent are not split. In particular \<^verbatim>\<open>meter ** 2\<close> gives \<^verbatim>\<open>(1, meter ** 2)\<close>.
\<close>

theorem decompose_expr_Pow:
  assumes "str_contains ''Pow'' (type_str expr)"
  shows "decompose_expr E expr = Inr (PyInt 1, expr)"
  using assms by (simp add: decompose_expr_def)

theorem decompose_expr_Pow_witness:
  "str_contains ''Pow'' (type_str (Pow meter (Integer 2)))
   \<and> decompose_expr sample_env (Pow meter (Integer 2)) = Inr (PyInt 1, Pow meter (Integer 2))"
  using decompose_expr_Pow [of "Pow meter (Integer 2)" sample_env]
  by (simp add: sample_types)

subsection \<open>Products\<close>

lemma multiply_upt:
  "k \<le> length unit \<Longrightarrow>
   multiply E unit [k..<length unit] acc = mul_fold E acc (drop k unit)"
proof (induction "length unit - k" arbitrary: k acc)
  case 0
  then show ?case by simp
next
  case (Suc d)
  then have lt: "k < length unit" by simp
  have IH: "multiply E unit [Suc k..<length unit] v = mul_fold E v (drop (Suc k) unit)" for v
    using Suc.hyps(1) [of "Suc k" v] Suc.hyps(2) lt by simp
  show ?case
    using lt
    by (simp add: upt_conv_Cons Cons_nth_drop_Suc [symmetric] IH split: sum.splits)
qed

text \<open>
  Claim C5: for a product (\<^verbatim>\<open>'Mul'\<close> in the type, and not \<^verbatim>\<open>'Pow'\<close>, which is tested
  first) whose first operand converts to a float \<open>f\<close>, \<^verbatim>\<open>decompose_expr\<close> returns \<open>f\<close> as
  the magnitude and, as the unit, the left-to-right product of the remaining operands:
  the operand itself when there is exactly one. In particular \<^verbatim>\<open>5.0 * meter\<close> gives
  \<^verbatim>\<open>(5.0, meter)\<close>. A product of the engine has a second operand, and the products of
  the fold are assumed to return.
\<close>

theorem decompose_expr_Mul_float:
  assumes "\<not> str_contains ''Pow'' (type_str expr)"
      and "str_contains ''Mul'' (type_str expr)"
      and "py_args expr = Inr (value # unit)"
      and "py_float E value = Inr f"
      and "unit \<noteq> []"
      and "mul_fold E (hd unit) (tl unit) = Inr u"
  shows "decompose_expr E expr = Inr (PyFloat f, u) \<and> (length unit = 1 \<longrightarrow> u = hd unit)"
proof -
  obtain x xs where unit: "unit = x # xs"
    using assms(5) by (cases unit) auto
  have fold: "mul_fold E x xs = Inr u"
    using assms(6) unit by simp
  have loop: "multiply E unit [1..<length unit] x = Inr u"
    using multiply_upt [of 1 unit E x] fold unit by simp
  have one: "length unit = 1 \<Longrightarrow> u = x"
    using fold unit by simp
  have "split_coefficient E value (value # unit) = Inr (PyFloat f, u)"
  proof (cases "length unit = 1")
    case True
    with assms(4) one unit show ?thesis
      by (simp add: split_coefficient_def py_index_0)
  next
    case False
    with assms(4) unit loop show ?thesis
      unfolding split_coefficient_def Let_def by (simp add: py_index_0 del: upt_Suc)
  qed
  then show ?thesis
    using assms(1,2,3) one unit by (simp add: decompose_expr_def py_index_0)
qed

theorem decompose_expr_Mul_float_witness:
  "decompose_expr sample_env (Mul [Float 5, meter]) = Inr (PyFloat 5, meter)
   \<and> decompose_expr sample_env (Mul [Float 5, meter, second]) =
       Inr (PyFloat 5, Mul [meter, second])"
proof -
  have m: "mul_fold sample_env meter [second] = Inr (Mul [meter, second])"
    by (simp add: sample_defs)
  show ?thesis
    using decompose_expr_Mul_float [of "Mul [Float 5, meter]" "Float 5" "[meter]" sample_env
        5 meter]
      decompose_expr_Mul_float [of "Mul [Float 5, meter, second]" "Float 5" "[meter, second]"
        sample_env 5 "Mul [meter, second]"] m
    by (simp add: sample_types sample_attributes sample_float_Float)
qed

text \<open>
  Claim C6: for a product whose first operand does not convert to a float (\<^verbatim>\<open>float\<close>
  raises \<^verbatim>\<open>TypeError\<close>), \<^verbatim>\<open>decompose_expr\<close> returns, without raising, the magnitude 1
  and the whole expression as the unit.
\<close>

theorem decompose_expr_Mul_symbolic:
  assumes "\<not> str_contains ''Pow'' (type_str expr)"
      and "str_contains ''Mul'' (type_str expr)"
      and "py_args expr = Inr (value # unit)"
      and "py_float E value = Inl (TypeError msg)"
  shows "decompose_expr E expr = Inr (PyInt 1, expr)"
  using assms by (simp add: decompose_expr_def py_index_0 split_coefficient_def)

theorem decompose_expr_Mul_symbolic_witness:
  "py_float sample_env meter = Inl (TypeError ''can't convert expression to float'')
   \<and> decompose_expr sample_env (Mul [meter, second]) = Inr (PyInt 1, Mul [meter, second])"
  using decompose_expr_Mul_symbolic [of "Mul [meter, second]" meter "[second]" sample_env,
      OF _ _ _ sample_float_meter]
  by (simp add: sample_types sample_attributes sample_float_meter)

subsection \<open>Arrays\<close>

lemma decompose_expr_magnitude:
  assumes "decompose_expr E expr = Inr (m, u)"
  shows "m = PyInt 1 \<or> (\<exists>f. m = PyFloat f)"
proof -
  have "\<exists>f. m' = PyFloat f" if "split_coefficient E v args = Inr (m', u')" for v args m' u'
    using that by (auto simp: split_coefficient_def Let_def split: sum.splits if_splits)
  then show ?thesis
    using assms by (auto simp: decompose_expr_def split: if_splits sum.splits error.splits)
qed

lemma for_each_Inr:
  "for_each f xs = Inr ys \<Longrightarrow> list_all2 (\<lambda>x y. f x = Inr y) xs ys"
  by (induction xs arbitrary: ys) (auto split: sum.splits)

lemma for_each_returns:
  "list_all (\<lambda>x. \<exists>y. f x = Inr y) xs \<Longrightarrow>
   \<exists>ys. for_each f xs = Inr ys \<and> length ys = length xs"
  by (induction xs) (auto split: sum.splits)

text \<open>
  A one-dimensional array whose elements all decompose is accepted whatever their units
  are, as soon as the first unit equals itself: the \<^verbatim>\<open>ValueError\<close> of line 225 is out of
  reach for it.
\<close>

lemma decompose_expr_array_accepts_1d:
  assumes "shape value0 = [n]" and "0 < n"
      and "for_each (decompose_expr E) (flatten value0) = Inr ((m, u) # pairs)"
      and "py_eq E u u"
  shows "\<exists>doubles. decompose_expr_array E value0 = Inr (NDArray [n] doubles, Element u)"
proof -
  have "list_all2 (\<lambda>x y. decompose_expr E x = Inr y) (flatten value0) ((m, u) # pairs)"
    using assms(3) by (rule for_each_Inr)
  then have "list_all (\<lambda>p. fst p = PyInt 1 \<or> (\<exists>f. fst p = PyFloat f)) ((m, u) # pairs)"
    unfolding list_all_iff list_all2_conv_all_nth
    by (metis decompose_expr_magnitude in_set_conv_nth prod.collapse)
  then have "list_all (\<lambda>x. \<exists>y. py_float E x = Inr y) (map fst ((m, u) # pairs))"
    unfolding list_all_iff by (auto simp: py_float_def)
  then obtain doubles where "for_each (py_float E) (map fst ((m, u) # pairs)) = Inr doubles"
    using for_each_returns by blast
  then show ?thesis
    using assms
    by (simp add: decompose_expr_array_def index0_def py_index_0 eq_first_def np_any_def)
qed

text \<open>
  Claim C1 asks for a \<^verbatim>\<open>ValueError\<close> when an element's unit differs from the first one.
  The test of the function is \<^verbatim>\<open>np.any(unit[0] == unit)\<close>, which holds as soon as one unit
  equals the first: the array of the specification's example, three elements
  \<^verbatim>\<open>3.0 * meter\<close> and one \<^verbatim>\<open>2.0 * second\<close> in shape 2 by 2, is accepted, and so is the
  one-dimensional array of \<^verbatim>\<open>3.0 * meter\<close> and \<^verbatim>\<open>2.0 * second\<close>. For the array of two
  dimensions the unit returned is \<^verbatim>\<open>unit[0]\<close>, the first row of units.
\<close>

theorem decompose_expr_array_mixed_units:
  "decompose_expr_array sample_env
     (NDArray [2, 2]
        [Mul [Float 3, meter], Mul [Float 3, meter], Mul [Float 3, meter], Mul [Float 2, second]])
   = Inr (NDArray [2, 2] [3, 3, 3, 2], Subarray (NDArray [2] [meter, meter]))
   \<and> decompose_expr_array sample_env (NDArray [2] [Mul [Float 3, meter], Mul [Float 2, second]])
   = Inr (NDArray [2] [3, 2], Element meter)"
proof -
  have d: "decompose_expr sample_env (Mul [Float r, u]) = Inr (PyFloat r, u)" for r u
    by (simp add: decompose_expr_def sample_types sample_attributes sample_float_Float
        split_coefficient_def py_index_def)
  have e: "py_eq sample_env meter meter" "\<not> py_eq sample_env meter second"
    by (simp_all add: sample_env_def sympify_def meter_def second_def Quantity_def)
  show ?thesis
    by (simp add: decompose_expr_array_def d index0_def py_index_def eq_first_def np_any_def e
        py_float_def)
qed


section \<open>The dimension classifier\<close>

text \<open>
  Claim C7: for a resolved unit whose type is a power (and not a quantity, which is tested
  first) with the operands \<open>base\<close> and \<open>exponent\<close>: when the base carries a dimension (the
  read \<^verbatim>\<open>unit_base.dimension\<close> returns it), \<^verbatim>\<open>get_dimension\<close> returns \<^verbatim>\<open>area\<close> if the
  dimension equals \<^verbatim>\<open>length\<close> and the exponent equals 2, \<^verbatim>\<open>volume\<close> if it equals \<^verbatim>\<open>length\<close>
  and the exponent equals 3, and \<^verbatim>\<open>Zero\<close> for any other exponent and for a dimension that
  is not \<^verbatim>\<open>length\<close>; when the base has no dimension attribute (the read raises
  \<^verbatim>\<open>AttributeError\<close>), it returns \<^verbatim>\<open>Zero\<close>.
\<close>

theorem get_dimension_Pow:
  assumes "get_unit E u = Inr v"
      and "\<not> str_contains ''Quantity'' (type_str v)"
      and "str_contains ''Pow'' (type_str v)"
      and "py_args v = Inr [base, exponent]"
  shows "(\<forall>d. py_getattr E base ''dimension'' = Inr d \<longrightarrow>
            get_dimension E u = Inr
              (if py_eq E d (length' E) then
                 (if py_eq E exponent (PyInt 2) then area E
                  else if py_eq E exponent (PyInt 3) then volume E
                  else Zero E)
               else Zero E))
       \<and> (py_getattr E base ''dimension'' = Inl AttributeError \<longrightarrow>
            get_dimension E u = Inr (Zero E))"
  using assms by (simp add: get_dimension_def)

theorem get_dimension_Pow_witness:
  "get_dimension sample_env (Pow meter (Integer 2)) = Inr (area sample_env)
   \<and> get_dimension sample_env (Pow meter (Integer 3)) = Inr (volume sample_env)
   \<and> get_dimension sample_env (Pow meter (Integer 4)) = Inr (Zero sample_env)
   \<and> get_dimension sample_env (Pow second (Integer 2)) = Inr (Zero sample_env)
   \<and> get_dimension sample_env (Pow (Integer 5) (Integer 2)) = Inr (Zero sample_env)"
proof -
  have eqs:
    "py_eq sample_env (Dimension ''length'') (length' sample_env)"
    "\<not> py_eq sample_env (Dimension ''time'') (length' sample_env)"
    "py_eq sample_env (Integer 2) (PyInt 2)"
    "\<not> py_eq sample_env (Integer 3) (PyInt 2)"
    "py_eq sample_env (Integer 3) (PyInt 3)"
    "\<not> py_eq sample_env (Integer 4) (PyInt 2)"
    "\<not> py_eq sample_env (Integer 4) (PyInt 3)"
    by (simp_all add: sample_env_def sympify_def Dimension_def Integer_def)
  note pow = get_dimension_Pow [OF sample_get_unit(1) sample_types(2) sample_types(1)
      sample_attributes(4)]
  show ?thesis
    using pow [of meter "Integer 2"] pow [of meter "Integer 3"] pow [of meter "Integer 4"]
      pow [of second "Integer 2"] pow [of "Integer 5" "Integer 2"]
    by (simp add: meter_def second_def sample_attributes eqs)
qed

lemma get_dimension_propagates: "get_unit E u = Inl e \<Longrightarrow> get_dimension E u = Inl e"
  by (simp add: get_dimension_def)

text \<open>
  Claim C3, as amended: \<^verbatim>\<open>get_dimension\<close> is not total. An exception of \<^verbatim>\<open>get_unit\<close> is not
  caught (\<open>get_dimension_propagates\<close>), and once \<^verbatim>\<open>get_unit\<close> has resolved the argument to
  a unit, an exception other than \<^verbatim>\<open>AttributeError\<close> raised by one of the reads
  \<^verbatim>\<open>unit.dimension\<close>, \<^verbatim>\<open>dimension.name\<close>, \<^verbatim>\<open>unit_base.dimension\<close> leaves the function as
  well. In every other case of a quantity, of a power with its two operands, and of any
  other unit the function returns: \<^verbatim>\<open>Zero\<close> when a read raises \<^verbatim>\<open>AttributeError\<close> (a
  quantity without the attribute \<^verbatim>\<open>dimension\<close>, a dimension without \<^verbatim>\<open>name\<close>, a power whose
  base has no dimension) and for a unit that is neither a quantity nor a power, and the
  dimension read (or \<^verbatim>\<open>Zero\<close> for the name \<^verbatim>\<open>One\<close>) for a quantity.
\<close>

theorem get_dimension_returns_after_get_unit:
  assumes "get_unit E u = Inr v"
  shows "(str_contains ''Quantity'' (type_str v)
          \<and> py_getattr E v ''dimension'' = Inl AttributeError
          \<longrightarrow> get_dimension E u = Inr (Zero E))
     \<and> (\<forall>d. str_contains ''Quantity'' (type_str v)
              \<and> py_getattr E v ''dimension'' = Inr d
              \<and> py_getattr E d ''name'' = Inl AttributeError
          \<longrightarrow> get_dimension E u = Inr (Zero E))
     \<and> (\<forall>d n. str_contains ''Quantity'' (type_str v)
              \<and> py_getattr E v ''dimension'' = Inr d
              \<and> py_getattr E d ''name'' = Inr n
          \<longrightarrow> get_dimension E u = Inr (if py_eq E n (One' E) then Zero E else d))
     \<and> (\<forall>base exponent. \<not> str_contains ''Quantity'' (type_str v)
              \<and> str_contains ''Pow'' (type_str v)
              \<and> py_args v = Inr [base, exponent]
              \<and> py_getattr E base ''dimension'' = Inl AttributeError
          \<longrightarrow> get_dimension E u = Inr (Zero E))
     \<and> (\<forall>base exponent d. \<not> str_contains ''Quantity'' (type_str v)
              \<and> str_contains ''Pow'' (type_str v)
              \<and> py_args v = Inr [base, exponent]
              \<and> py_getattr E base ''dimension'' = Inr d
          \<longrightarrow> (\<exists>r. get_dimension E u = Inr r))
     \<and> (\<not> str_contains ''Quantity'' (type_str v) \<and> \<not> str_contains ''Pow'' (type_str v)
          \<longrightarrow> get_dimension E u = Inr (Zero E))
     \<and> (\<forall>e. e \<noteq> AttributeError
              \<and> str_contains ''Quantity'' (type_str v)
              \<and> py_getattr E v ''dimension'' = Inl e
          \<longrightarrow> get_dimension E u = Inl e)
     \<and> (\<forall>d e. e \<noteq> AttributeError
              \<and> str_contains ''Quantity'' (type_str v)
              \<and> py_getattr E v ''dimension'' = Inr d
              \<and> py_getattr E d ''name'' = Inl e
          \<longrightarrow> get_dimension E u = Inl e)
     \<and> (\<forall>base exponent e. e \<noteq> AttributeError
              \<and> \<not> str_contains ''Quantity'' (type_str v)
              \<and> str_contains ''Pow'' (type_str v)
              \<and> py_args v = Inr [base, exponent]
              \<and> py_getattr E base ''dimension'' = Inl e
          \<longrightarrow> get_dimension E u = Inl e)"
  using assms by (auto simp: get_dimension_def split: error.splits)

theorem get_dimension_returns_after_get_unit_witness:
  "get_dimension sample_env meter = Inr (Dimension ''length'')
   \<and> get_dimension sample_env (Quantity ''radian'' (PyObj Dimension_class [] [(''name'', Integer 1)]))
       = Inr (Zero sample_env)
   \<and> get_dimension sample_env (Pow (Integer 5) (Integer 2)) = Inr (Zero sample_env)
   \<and> get_dimension sample_env PyNone = Inr (Zero sample_env)
   \<and> get_dimension sample_env (PyObj Quantity_class [] [(''name'', PyStr ''count'')])
       = Inl KeyError"
proof -
  have none: "get_unit sample_env PyNone = Inr (Integer 0)"
    by (simp add: get_unit_def sample_env_def sample_is_sympy_def sympify_def)
  have zero: "Zero sample_env = Integer 0"
    by (simp add: sample_env_def)
  have bare: "get_unit sample_env (PyObj Quantity_class [] [(''name'', PyStr ''count'')]) =
      Inr (PyObj Quantity_class [] [(''name'', PyStr ''count'')])"
    by (simp add: get_unit_def sample_env_def sample_is_sympy_def class_defs)
  have bare_read:
    "py_getattr sample_env (PyObj Quantity_class [] [(''name'', PyStr ''count'')]) ''dimension''
       = Inl KeyError"
    by (simp add: sample_env_def sample_getattr_def)
  have bare_type: "str_contains ''Quantity'' Quantity_class"
    by (simp add: class_defs)
  have one_name:
    "py_getattr sample_env (PyObj Dimension_class [] [(''name'', Integer 1)]) ''name''
       = Inr (Integer 1)"
    by (simp add: sample_env_def sample_getattr_def class_defs)
  have names: "\<not> py_eq sample_env (PyStr ''length'') (One' sample_env)"
    "py_eq sample_env (Integer 1) (One' sample_env)"
    by (simp_all add: sample_env_def sympify_def Integer_def)
  show ?thesis
    using get_dimension_returns_after_get_unit [OF sample_get_unit(2),
        of "''meter''" "Dimension ''length''"]
      get_dimension_returns_after_get_unit [OF sample_get_unit(2),
        of "''radian''" "PyObj Dimension_class [] [(''name'', Integer 1)]"]
      get_dimension_returns_after_get_unit [OF sample_get_unit(1), of "Integer 5" "Integer 2"]
      get_dimension_returns_after_get_unit [OF none]
      get_dimension_returns_after_get_unit [OF bare]
    by (simp add: meter_def sample_types sample_attributes zero bare_read bare_type one_name
        names)
qed

text \<open>
  The claim as stated (no input makes the function raise, and every failure to read a
  dimension gives \<^verbatim>\<open>Zero\<close>) fails: the name of an unknown unit raises \<^verbatim>\<open>UnitError\<close>, the
  empty string raises \<^verbatim>\<open>IndexError\<close>, a value of an unrecognised kind, here the float
  2.5, raises \<^verbatim>\<open>UnitError\<close> as well, and a quantity without a dimension raises the
  \<^verbatim>\<open>KeyError\<close> of the engine's property.
\<close>

theorem get_dimension_raises:
  "get_dimension sample_env (PyStr ''banana'') = Inl (UnitError ''banana is not a valid unit.'')
   \<and> get_dimension sample_env (PyStr []) = Inl IndexError
   \<and> isl (get_dimension sample_env (PyFloat (5 / 2)))
   \<and> get_dimension sample_env (PyObj Quantity_class [] [(''name'', PyStr ''count'')])
       = Inl KeyError"
  by (simp add: get_dimension_def get_unit_def c_string_def get_unit_from_str_def token_defs
      py_index_def sample_env_def sample_is_sympy_def sample_getattr_def sympify_def
      Integer_def Float_def class_defs)

end
